theory Spec2Isabelle
  imports Main "HOL-Library.Sublist" "HOL-Library.Word"
begin

section \<open>Go's float64 and the fmt verb the examples use\<close>

text \<open>
  Every amount in the examples is a Go \<^verbatim>\<open>float64\<close>: an IEEE 754 binary64 number.
  \<open>Finite neg m e\<close> stands for \<open>(-1)^neg * m * 2^e\<close>; a value of the type has
  \<open>m < 2^53\<close> and \<open>-1074 \<le> e \<le> 971\<close>, with \<open>2^52 \<le> m\<close> unless \<open>e = -1074\<close>
  (the subnormal numbers and the two zeros). Not-a-number values are not told apart.
\<close>

datatype float64 = Finite bool nat int | Infinity bool | NaN

text \<open>The number of binary digits of a natural number.\<close>

fun bitlen :: "nat \<Rightarrow> nat" where
  "bitlen n = (if n = 0 then 0 else Suc (bitlen (n div 2)))"

declare bitlen.simps [simp del]

text \<open>The quotient \<open>n / d\<close> rounded to the nearest natural number, ties to the even one.\<close>

definition round_half_even :: "nat \<Rightarrow> nat \<Rightarrow> nat" where
  "round_half_even n d =
     (let q = n div d; r = n mod d
      in if 2 * r < d then q
         else if d < 2 * r then q + 1
         else if even q then q else q + 1)"

text \<open>
  The binary64 number nearest to \<open>(-1)^neg * n / d\<close> (for \<open>0 < d\<close>), ties to the even
  mantissa, which is the rounding of every float64 operation and of every conversion of a
  constant in Go. \<open>E\<close> is the binary exponent of the quotient, \<open>q\<close> the exponent of the
  last mantissa bit that is kept; a result beyond the largest finite number is an infinity.
\<close>

definition round_to_f64 :: "bool \<Rightarrow> nat \<Rightarrow> nat \<Rightarrow> float64" where
  "round_to_f64 neg n d =
     (if n = 0 then Finite neg 0 (- 1074)
      else
        let k = int (bitlen n) - int (bitlen d);
            E = (if d * 2 ^ nat k \<le> n * 2 ^ nat (- k) then k else k - 1);
            q = max (E - 52) (- 1074);
            m = round_half_even (n * 2 ^ nat (- q)) (d * 2 ^ nat q);
            m' = (if m = 2 ^ 53 then 2 ^ 52 else m);
            q' = (if m = 2 ^ 53 then q + 1 else q)
        in if 971 < q' then Infinity neg else Finite neg m' q')"

text \<open>
  A numeric literal of the source is an untyped constant with an exact value:
  \<open>Decimal m e\<close> is \<open>m * 10^e\<close>, so \<^verbatim>\<open>0.9\<close> is \<open>Decimal 9 (-1)\<close> and \<^verbatim>\<open>1000\<close> is
  \<open>Decimal 1000 0\<close>. Used where a float64 is expected, it is rounded once.
\<close>

datatype untyped_const = Decimal int int

fun f64_of_const :: "untyped_const \<Rightarrow> float64" where
  "f64_of_const (Decimal m e) =
     round_to_f64 (m < 0) (nat \<bar>m\<bar> * 10 ^ nat e) (10 ^ nat (- e))"

declare f64_of_const.simps [simp del]

text \<open>The operator \<^verbatim>\<open>*\<close> on float64: the exact product, rounded.\<close>

fun f64_mul :: "float64 \<Rightarrow> float64 \<Rightarrow> float64" where
  "f64_mul NaN y = NaN"
| "f64_mul (Infinity s1) NaN = NaN"
| "f64_mul (Finite s1 m1 e1) NaN = NaN"
| "f64_mul (Infinity s1) (Infinity s2) = Infinity (s1 \<noteq> s2)"
| "f64_mul (Infinity s1) (Finite s2 m2 e2) = (if m2 = 0 then NaN else Infinity (s1 \<noteq> s2))"
| "f64_mul (Finite s1 m1 e1) (Infinity s2) = (if m1 = 0 then NaN else Infinity (s1 \<noteq> s2))"
| "f64_mul (Finite s1 m1 e1) (Finite s2 m2 e2) =
     round_to_f64 (s1 \<noteq> s2) (m1 * m2 * 2 ^ nat (e1 + e2)) (2 ^ nat (- (e1 + e2)))"

text \<open>
  The comparisons \<^verbatim>\<open>==\<close> and \<^verbatim>\<open><=\<close> on float64. \<open>scaled s m e e0\<close> is the value of
  \<open>Finite s m e\<close> in units of \<open>2^e0\<close>, an integer when \<open>e0 \<le> e\<close>. A not-a-number
  compares false with everything, itself included, and the two zeros are equal.
\<close>

definition scaled :: "bool \<Rightarrow> nat \<Rightarrow> int \<Rightarrow> int \<Rightarrow> int" where
  "scaled s m e e0 = (if s then - 1 else 1) * int m * 2 ^ nat (e - e0)"

fun f64_eq :: "float64 \<Rightarrow> float64 \<Rightarrow> bool" where
  "f64_eq (Finite s1 m1 e1) (Finite s2 m2 e2) =
     (scaled s1 m1 e1 (min e1 e2) = scaled s2 m2 e2 (min e1 e2))"
| "f64_eq (Infinity s1) (Infinity s2) = (s1 = s2)"
| "f64_eq x y = False"

fun f64_le :: "float64 \<Rightarrow> float64 \<Rightarrow> bool" where
  "f64_le (Finite s1 m1 e1) (Finite s2 m2 e2) =
     (scaled s1 m1 e1 (min e1 e2) \<le> scaled s2 m2 e2 (min e1 e2))"
| "f64_le (Infinity s1) (Infinity s2) = (if s2 then s1 else True)"
| "f64_le (Infinity s1) (Finite s2 m2 e2) = s1"
| "f64_le (Finite s1 m1 e1) (Infinity s2) = (if s2 then False else True)"
| "f64_le x y = False"

text \<open>
  The verb \<^verbatim>\<open>%f\<close> of package fmt on a float64: the exact value rounded to six decimal
  places, ties to the even digit, written with a sign only when negative (a negative
  zero and a negative number rounded to zero keep it), all digits of the integer part,
  a point and six digits. The infinities are written \<^verbatim>\<open>+Inf\<close> and \<^verbatim>\<open>-Inf\<close>, a
  not-a-number \<^verbatim>\<open>NaN\<close>.
\<close>

definition digit :: "nat \<Rightarrow> char" where
  "digit d = ''0123456789'' ! (d mod 10)"

fun decimal :: "nat \<Rightarrow> string" where
  "decimal n = (if n < 10 then [digit n] else decimal (n div 10) @ [digit (n mod 10)])"

declare decimal.simps [simp del]

fun fixed_digits :: "nat \<Rightarrow> nat \<Rightarrow> string" where
  "fixed_digits k n =
     (if k = 0 then [] else fixed_digits (k - 1) (n div 10) @ [digit (n mod 10)])"

declare fixed_digits.simps [simp del]

fun fmt_f :: "float64 \<Rightarrow> string" where
  "fmt_f NaN = ''NaN''"
| "fmt_f (Infinity s) = (if s then ''-Inf'' else ''+Inf'')"
| "fmt_f (Finite s m e) =
     (let N = round_half_even (m * 10 ^ 6 * 2 ^ nat e) (2 ^ nat (- e))
      in (if s then ''-'' else []) @ decimal (N div 10 ^ 6) @ ''.'' @ fixed_digits 6 (N mod 10 ^ 6))"

text \<open>
  Standard output is the text written so far. \<^verbatim>\<open>fmt.Println\<close> of one string appends
  it and a line feed.
\<close>

definition newline :: string where
  "newline = [CHR 0x0A]"

definition Println :: "string \<Rightarrow> string \<Rightarrow> string" where
  "Println s out = out @ s @ newline"

section \<open>Open/closed principle: the discounts\<close>

definition HOLIDAY_DISCOUNT_PERCENTAGE :: untyped_const where
  "HOLIDAY_DISCOUNT_PERCENTAGE = Decimal 9 (- 1)"

definition ROYALTY_DISCOUNT_PERCENTAGE :: untyped_const where
  "ROYALTY_DISCOUNT_PERCENTAGE = Decimal 85 (- 2)"

text \<open>
  The values of interface type \<^verbatim>\<open>Discount\<close> are the two empty structs that have the
  method; the method called is the one of the value that is bound.
\<close>

datatype Discount = HolidayDiscount | LoyaltyDiscount

fun ApplyDiscount :: "Discount \<Rightarrow> float64 \<Rightarrow> float64" where
  "ApplyDiscount HolidayDiscount amount = f64_mul amount (f64_of_const HOLIDAY_DISCOUNT_PERCENTAGE)"
| "ApplyDiscount LoyaltyDiscount amount = f64_mul amount (f64_of_const ROYALTY_DISCOUNT_PERCENTAGE)"

text \<open>
  The call \<^verbatim>\<open>d.ApplyDiscount(amount)\<close> evaluated in a program state: the method has a
  value receiver without fields and a float64 parameter, reads the two constants only and
  assigns nothing, so the state comes back as it was.
\<close>

definition invoke_Discount :: "Discount \<Rightarrow> float64 \<Rightarrow> 's \<Rightarrow> float64 \<times> 's" where
  "invoke_Discount d amount st = (ApplyDiscount d amount, st)"

text \<open>The variables of \<^verbatim>\<open>main\<close> in this example: the invoice, and standard output.\<close>

record Invoice_OCP =
  Amount_OCP :: float64

record vars_OCP =
  invoice_OCP :: Invoice_OCP
  stdout_OCP :: string

section \<open>Single responsibility principle: the invoice\<close>

text \<open>The field \<open>ID\<close> is an \<^verbatim>\<open>int\<close>, 64 bits wide; no method computes with it.\<close>

record Invoice =
  ID :: "64 word"
  Amount :: float64

definition CalculateTax :: "Invoice \<Rightarrow> float64" where
  "CalculateTax i = f64_mul (Amount i) (f64_of_const (Decimal 15 (- 2)))"

text \<open>
  The call \<^verbatim>\<open>invoice.CalculateTax()\<close> on a variable \<open>invoice\<close> of the state: the
  receiver is passed by value, and the body assigns nothing.
\<close>

record vars_SRP =
  invoice :: Invoice
  stdout_SRP :: string

definition invoke_CalculateTax :: "vars_SRP \<Rightarrow> float64 \<times> vars_SRP" where
  "invoke_CalculateTax st = (CalculateTax (invoice st), st)"

section \<open>Liskov substitution principle: the payment processors\<close>

text \<open>
  \<^verbatim>\<open>fmt.Sprintf\<close> with a format that has the one verb \<^verbatim>\<open>%f\<close> and with one float64
  argument returns the text of the format with the formatted argument in place of the verb.
\<close>

datatype PaymentProcessor = CashPayment | CardPayment

fun ProcessPayment :: "PaymentProcessor \<Rightarrow> float64 \<Rightarrow> string" where
  "ProcessPayment CashPayment amount = ''Processing cash payment of '' @ fmt_f amount"
| "ProcessPayment CardPayment amount = ''Processing card payment of '' @ fmt_f amount"


text \<open>\<^verbatim>\<open>main\<close> binds the variable to each variant in turn and prints what the call returns.\<close>

definition main_LSP :: "string \<Rightarrow> string" where
  "main_LSP out =
     (let paymentProcessor = CashPayment;
          out1 = Println (ProcessPayment paymentProcessor (f64_of_const (Decimal 500 0))) out;
          paymentProcessor = CardPayment
      in Println (ProcessPayment paymentProcessor (f64_of_const (Decimal 1000 0))) out1)"

section \<open>Dependency inversion principle: the payment methods\<close>

datatype PaymentMethod = CreditCard | PayPal

fun Pay :: "PaymentMethod \<Rightarrow> float64 \<Rightarrow> string" where
  "Pay CreditCard amount = ''Paid '' @ fmt_f amount @ '' using Credit Card''"
| "Pay PayPal amount = ''Paid '' @ fmt_f amount @ '' using PayPal''"


text \<open>
  The field \<open>Method\<close> has interface type, so it may hold no value (\<^verbatim>\<open>nil\<close>, here
  \<open>None\<close>); calling a method through it then panics.
\<close>

record PaymentProcessor_struct =
  Method :: "PaymentMethod option"

datatype panic = NilDereference

definition Process :: "PaymentProcessor_struct \<Rightarrow> float64 \<Rightarrow> string \<Rightarrow> panic + string" where
  "Process p amount out =
     (case Method p of
        None \<Rightarrow> Inl NilDereference
      | Some m \<Rightarrow> Inr (Println (Pay m amount) out))"

text \<open>
  The variables of \<^verbatim>\<open>main\<close>: the processor, and standard output. The statement
  \<^verbatim>\<open>processor.Process(amount)\<close> passes a copy of the processor and keeps what the call
  wrote.
\<close>

record vars_DIP =
  processor :: PaymentProcessor_struct
  stdout :: string

definition call_Process :: "float64 \<Rightarrow> vars_DIP \<Rightarrow> panic + vars_DIP" where
  "call_Process amount st =
     (case Process (processor st) amount (stdout st) of
        Inl e \<Rightarrow> Inl e
      | Inr out \<Rightarrow> Inr (st\<lparr>stdout := out\<rparr>))"

definition main_DIP :: "string \<Rightarrow> panic + vars_DIP" where
  "main_DIP out =
     (case call_Process (f64_of_const (Decimal 100 0))
             \<lparr>processor = \<lparr>Method = Some CreditCard\<rparr>, stdout = out\<rparr> of
        Inl e \<Rightarrow> Inl e
      | Inr st \<Rightarrow>
          call_Process (f64_of_const (Decimal 200 0)) (st\<lparr>processor := \<lparr>Method = Some PayPal\<rparr>\<rparr>))"

section \<open>Interface segregation principle: the printers\<close>

definition SimplePrinter_Print :: "string \<Rightarrow> string" where
  "SimplePrinter_Print out = Println ''Printing document'' out"

definition MultifunctionPrinter_Print :: "string \<Rightarrow> string" where
  "MultifunctionPrinter_Print out = Println ''Printing document'' out"

definition MultifunctionPrinter_Scan :: "string \<Rightarrow> string" where
  "MultifunctionPrinter_Scan out = Println ''Scanning document'' out"

text \<open>
  The method set of each struct type, from its method declarations in source order, and
  the method names each interface asks for. A type implements an interface when its
  method set has every name of the interface; a call \<^verbatim>\<open>x.M()\<close> is accepted by the
  compiler only when \<open>M\<close> is in the method set of the type of \<open>x\<close>.
\<close>

datatype device = SimplePrinter | MultifunctionPrinter

fun method_set :: "device \<Rightarrow> (string \<times> (string \<Rightarrow> string)) list" where
  "method_set SimplePrinter = [(''Print'', SimplePrinter_Print)]"
| "method_set MultifunctionPrinter =
     [(''Print'', MultifunctionPrinter_Print), (''Scan'', MultifunctionPrinter_Scan)]"

definition Printer :: "string list" where
  "Printer = [''Print'']"

definition Scanner :: "string list" where
  "Scanner = [''Scan'']"

definition implements :: "device \<Rightarrow> string list \<Rightarrow> bool" where
  "implements d iface = list_all (\<lambda>name. map_of (method_set d) name \<noteq> None) iface"

datatype compile_error = MissingMethod string

definition call_method :: "device \<Rightarrow> string \<Rightarrow> string \<Rightarrow> compile_error + string" where
  "call_method d name out =
     (case map_of (method_set d) name of
        None \<Rightarrow> Inl (MissingMethod name)
      | Some f \<Rightarrow> Inr (f out))"

definition main_ISP :: "string \<Rightarrow> string" where
  "main_ISP out = MultifunctionPrinter_Scan (MultifunctionPrinter_Print (SimplePrinter_Print out))"

section \<open>Facts about the arithmetic\<close>

lemmas f64_eval =
  f64_of_const.simps round_to_f64_def round_half_even_def Let_def bitlen.simps scaled_def

lemma f64_const_0_9: "f64_of_const (Decimal 9 (- 1)) = Finite False 8106479329266893 (- 53)"
  by (simp add: f64_eval)

lemma f64_const_0_85: "f64_of_const (Decimal 85 (- 2)) = Finite False 7656119366529843 (- 53)"
  by (simp add: f64_eval)

lemma f64_const_1000: "f64_of_const (Decimal 1000 0) = Finite False 8796093022208000 (- 43)"
  by (simp add: f64_eval)

lemma round_to_f64_not_NaN: "round_to_f64 neg n d \<noteq> NaN"
  by (simp add: round_to_f64_def Let_def)

lemma f64_eq_refl: "x \<noteq> NaN \<Longrightarrow> f64_eq x x"
  by (cases x) simp_all

lemma f64_le_not_NaN: "f64_le x y \<Longrightarrow> y \<noteq> NaN"
  by (cases x; cases y) simp_all

lemma f64_mul_nonzero_not_NaN:
  assumes "a \<noteq> NaN" and "m \<noteq> 0"
  shows "f64_mul a (Finite s m e) \<noteq> NaN"
  using assms by (cases a) (simp_all add: round_to_f64_not_NaN)

lemma f64_1000_nonneg: "f64_le (f64_of_const (Decimal 0 0)) (f64_of_const (Decimal 1000 0))"
  by (simp add: f64_eval)

section \<open>Facts about the formatting and what the programs print\<close>

lemmas fmt_eval =
  round_half_even_def Let_def decimal.simps fixed_digits.simps digit_def

lemma fmt_f_500: "fmt_f (f64_of_const (Decimal 500 0)) = ''500.000000''"
  by (simp add: f64_eval fmt_eval)

lemma fmt_f_1000: "fmt_f (f64_of_const (Decimal 1000 0)) = ''1000.000000''"
  by (simp add: f64_eval fmt_eval)

lemma fmt_f_100: "fmt_f (f64_of_const (Decimal 100 0)) = ''100.000000''"
  by (simp add: f64_eval fmt_eval)

lemma fmt_f_200: "fmt_f (f64_of_const (Decimal 200 0)) = ''200.000000''"
  by (simp add: f64_eval fmt_eval)

text \<open>A tie in the sixth decimal place goes to the even digit, and a negative sign stays.\<close>

lemma fmt_f_tie: "fmt_f (f64_of_const (Decimal 78125 (- 7))) = ''0.007812''"
  by (simp add: f64_eval fmt_eval)

lemma fmt_f_negative_tiny: "fmt_f (f64_of_const (Decimal (- 1) (- 9))) = ''-0.000000''"
  by (simp add: f64_eval fmt_eval)

lemma ProcessPayment_Cash_500:
  "ProcessPayment CashPayment (f64_of_const (Decimal 500 0)) =
     ''Processing cash payment of 500.000000''"
  by (simp add: fmt_f_500)

lemma ProcessPayment_Card_1000:
  "ProcessPayment CardPayment (f64_of_const (Decimal 1000 0)) =
     ''Processing card payment of 1000.000000''"
  by (simp add: fmt_f_1000)

lemma main_LSP_output:
  "main_LSP [] = ''Processing cash payment of 500.000000'' @ newline @
                 ''Processing card payment of 1000.000000'' @ newline"
  by (simp add: main_LSP_def Println_def fmt_f_500 fmt_f_1000)

lemma main_DIP_output:
  "main_DIP [] = Inr \<lparr>processor = \<lparr>Method = Some PayPal\<rparr>,
       stdout = ''Paid 100.000000 using Credit Card'' @ newline @
                ''Paid 200.000000 using PayPal'' @ newline\<rparr>"
  by (simp add: main_DIP_def call_Process_def Process_def Println_def fmt_f_100 fmt_f_200)

lemma main_ISP_output:
  "main_ISP [] = ''Printing document'' @ newline @ ''Printing document'' @ newline @
                 ''Scanning document'' @ newline"
  by (simp add: main_ISP_def SimplePrinter_Print_def MultifunctionPrinter_Print_def
      MultifunctionPrinter_Scan_def Println_def)

text \<open>With no variant bound to the field, the call panics and nothing is printed.\<close>

lemma Process_nil: "Process \<lparr>Method = None\<rparr> a out = Inl NilDereference"
  by (simp add: Process_def)

section \<open>The discounts\<close>

text \<open>
  C1. For every amount \<open>a \<ge> 0\<close>, \<^verbatim>\<open>HolidayDiscount.ApplyDiscount(a)\<close> returns
  \<open>a * 0.9\<close> and \<^verbatim>\<open>LoyaltyDiscount.ApplyDiscount(a)\<close> returns \<open>a * 0.85\<close>. The product
  is the float64 one: \<open>a\<close> times the float64 nearest to the rate, rounded. The result is
  that value, and it also compares equal to it with \<^verbatim>\<open>==\<close>, as an amount that is at
  least zero is a number and so is its product with the rate.
\<close>

theorem ApplyDiscount_rates:
  assumes "f64_le (f64_of_const (Decimal 0 0)) a"
  shows "ApplyDiscount HolidayDiscount a = f64_mul a (f64_of_const (Decimal 9 (- 1)))
       \<and> f64_eq (ApplyDiscount HolidayDiscount a) (f64_mul a (f64_of_const (Decimal 9 (- 1))))
       \<and> ApplyDiscount LoyaltyDiscount a = f64_mul a (f64_of_const (Decimal 85 (- 2)))
       \<and> f64_eq (ApplyDiscount LoyaltyDiscount a) (f64_mul a (f64_of_const (Decimal 85 (- 2))))"
proof -
  from assms have a: "a \<noteq> NaN"
    by (rule f64_le_not_NaN)
  have h: "f64_mul a (f64_of_const (Decimal 9 (- 1))) \<noteq> NaN"
    unfolding f64_const_0_9 using a by (rule f64_mul_nonzero_not_NaN) simp
  have l: "f64_mul a (f64_of_const (Decimal 85 (- 2))) \<noteq> NaN"
    unfolding f64_const_0_85 using a by (rule f64_mul_nonzero_not_NaN) simp
  show ?thesis
    using h l
    by (simp add: HOLIDAY_DISCOUNT_PERCENTAGE_def ROYALTY_DISCOUNT_PERCENTAGE_def f64_eq_refl)
qed

text \<open>The amount 1000 is at least zero, and the statement holds there.\<close>

theorem ApplyDiscount_rates_witness:
  "f64_le (f64_of_const (Decimal 0 0)) (f64_of_const (Decimal 1000 0))
   \<and> ApplyDiscount HolidayDiscount (f64_of_const (Decimal 1000 0)) =
       f64_mul (f64_of_const (Decimal 1000 0)) (f64_of_const (Decimal 9 (- 1)))
   \<and> f64_eq (ApplyDiscount HolidayDiscount (f64_of_const (Decimal 1000 0)))
       (f64_mul (f64_of_const (Decimal 1000 0)) (f64_of_const (Decimal 9 (- 1))))
   \<and> ApplyDiscount LoyaltyDiscount (f64_of_const (Decimal 1000 0)) =
       f64_mul (f64_of_const (Decimal 1000 0)) (f64_of_const (Decimal 85 (- 2)))
   \<and> f64_eq (ApplyDiscount LoyaltyDiscount (f64_of_const (Decimal 1000 0)))
       (f64_mul (f64_of_const (Decimal 1000 0)) (f64_of_const (Decimal 85 (- 2))))"
  by (rule conjI [OF f64_1000_nonneg ApplyDiscount_rates [OF f64_1000_nonneg]])

text \<open>
  C2. With the invoice of \<^verbatim>\<open>main\<close>, whose amount is 1000, the holiday discount yields 900
  and the loyalty discount yields 850: both products round to these numbers exactly.
\<close>

theorem ApplyDiscount_1000:
  "ApplyDiscount HolidayDiscount (Amount_OCP \<lparr>Amount_OCP = f64_of_const (Decimal 1000 0)\<rparr>) =
     f64_of_const (Decimal 900 0)
   \<and> ApplyDiscount LoyaltyDiscount (Amount_OCP \<lparr>Amount_OCP = f64_of_const (Decimal 1000 0)\<rparr>) =
     f64_of_const (Decimal 850 0)"
  by (simp add: HOLIDAY_DISCOUNT_PERCENTAGE_def ROYALTY_DISCOUNT_PERCENTAGE_def f64_eval)

section \<open>The payments\<close>

text \<open>
  C3, as stated: every payment variant returns a string that contains the formatted amount
  and its label among "Cash", "Card", "Credit Card", "PayPal". The cash payment of 500
  returns \<^verbatim>\<open>Processing cash payment of 500.000000\<close>, where "Cash" does not occur: the
  two processors write their label in lower case.
\<close>

theorem payment_label_capitalised_counterexample:
  "\<not> sublist ''Cash'' (ProcessPayment CashPayment (f64_of_const (Decimal 500 0)))"
  unfolding ProcessPayment_Cash_500 by code_simp

text \<open>
  C3, amended: for every amount \<open>a\<close>, the string each payment variant returns contains
  the amount formatted with \<^verbatim>\<open>%f\<close> and the label of the variant, which is "cash" for
  CashPayment, "card" for CardPayment, "Credit Card" for CreditCard and "PayPal" for PayPal.
\<close>

theorem payment_contains_amount_and_label:
  "sublist (fmt_f a) (ProcessPayment CashPayment a) \<and> sublist ''cash'' (ProcessPayment CashPayment a)
   \<and> sublist (fmt_f a) (ProcessPayment CardPayment a) \<and> sublist ''card'' (ProcessPayment CardPayment a)
   \<and> sublist (fmt_f a) (Pay CreditCard a) \<and> sublist ''Credit Card'' (Pay CreditCard a)
   \<and> sublist (fmt_f a) (Pay PayPal a) \<and> sublist ''PayPal'' (Pay PayPal a)"
proof -
  have cash: "ProcessPayment CashPayment a = ''Processing '' @ ''cash'' @ ('' payment of '' @ fmt_f a)"
    by simp
  have card: "ProcessPayment CardPayment a = ''Processing '' @ ''card'' @ ('' payment of '' @ fmt_f a)"
    by simp
  have cc: "Pay CreditCard a = (''Paid '' @ fmt_f a @ '' using '') @ ''Credit Card''"
    by simp
  have pp: "Pay PayPal a = (''Paid '' @ fmt_f a @ '' using '') @ ''PayPal''"
    by simp
  have "sublist ''cash'' (ProcessPayment CashPayment a)"
    unfolding cash by (rule sublist_appendI)
  moreover have "sublist ''card'' (ProcessPayment CardPayment a)"
    unfolding card by (rule sublist_appendI)
  moreover have "sublist ''Credit Card'' (Pay CreditCard a)"
    unfolding cc by (rule sublist_append_leftI)
  moreover have "sublist ''PayPal'' (Pay PayPal a)"
    unfolding pp by (rule sublist_append_leftI)
  moreover have "sublist (fmt_f a) (ProcessPayment CashPayment a)"
    unfolding ProcessPayment.simps by (rule sublist_append_leftI)
  moreover have "sublist (fmt_f a) (ProcessPayment CardPayment a)"
    unfolding ProcessPayment.simps by (rule sublist_append_leftI)
  moreover have "sublist (fmt_f a) (Pay CreditCard a)"
    unfolding Pay.simps by (rule sublist_appendI)
  moreover have "sublist (fmt_f a) (Pay PayPal a)"
    unfolding Pay.simps by (rule sublist_appendI)
  ultimately show ?thesis
    by blast
qed

text \<open>
  C4. Bound to CashPayment and called with 500, the processor returns a string that contains
  "cash" and "500"; bound to CardPayment and called with 1000, one that contains "card" and
  "1000".
\<close>

theorem ProcessPayment_scenario:
  "sublist ''cash'' (ProcessPayment CashPayment (f64_of_const (Decimal 500 0)))
   \<and> sublist ''500'' (ProcessPayment CashPayment (f64_of_const (Decimal 500 0)))
   \<and> sublist ''card'' (ProcessPayment CardPayment (f64_of_const (Decimal 1000 0)))
   \<and> sublist ''1000'' (ProcessPayment CardPayment (f64_of_const (Decimal 1000 0)))"
  unfolding ProcessPayment_Cash_500 ProcessPayment_Card_1000 by code_simp



text \<open>
  C6. For every amount, \<^verbatim>\<open>CreditCard.Pay\<close> and \<^verbatim>\<open>PayPal.Pay\<close> return strings of the one
  shape "Paid <formatted amount> using <label>" that differ in the label only, and
  \<^verbatim>\<open>Process\<close> does the same with whichever variant \<open>m\<close> is bound to the field: it
  prints the line that \<open>m\<close> returns.
\<close>

theorem Pay_same_shape:
  "Pay CreditCard a = ''Paid '' @ fmt_f a @ '' using '' @ ''Credit Card''
   \<and> Pay PayPal a = ''Paid '' @ fmt_f a @ '' using '' @ ''PayPal''
   \<and> Process \<lparr>Method = Some m\<rparr> a out = Inr (out @ Pay m a @ newline)"
  by (simp add: Process_def Println_def)

text \<open>
  C8. Invoking a capability method changes nothing of the caller's state: with a variant
  \<open>m\<close> bound, the statement \<^verbatim>\<open>processor.Process(a)\<close> returns, leaves the processor
  and its field \<open>Method\<close> as they were and appends the line of \<open>m\<close> to standard
  output, and \<^verbatim>\<open>ApplyDiscount\<close> called with the amount of the invoice leaves the state,
  so the invoice and its amount, as it was.
\<close>

theorem invocation_frame:
  assumes "Method (processor st) = Some m"
  shows "call_Process a st = Inr (st\<lparr>stdout := stdout st @ Pay m a @ newline\<rparr>)
       \<and> (\<exists>st'. call_Process a st = Inr st' \<and> processor st' = processor st
             \<and> Method (processor st') = Method (processor st))
       \<and> snd (invoke_Discount d (Amount_OCP (invoice_OCP s)) s) = s
       \<and> Amount_OCP (invoice_OCP (snd (invoke_Discount d (Amount_OCP (invoice_OCP s)) s))) =
           Amount_OCP (invoice_OCP s)"
  using assms by (simp add: call_Process_def Process_def Println_def invoke_Discount_def)

text \<open>The first call of \<^verbatim>\<open>main\<close>, and a holiday discount on an invoice of 1000.\<close>

theorem invocation_frame_witness:
  "Method (processor \<lparr>processor = \<lparr>Method = Some CreditCard\<rparr>, stdout = []\<rparr>) = Some CreditCard
   \<and> call_Process (f64_of_const (Decimal 100 0))
         \<lparr>processor = \<lparr>Method = Some CreditCard\<rparr>, stdout = []\<rparr> =
       Inr \<lparr>processor = \<lparr>Method = Some CreditCard\<rparr>,
            stdout = ''Paid 100.000000 using Credit Card'' @ newline\<rparr>
   \<and> snd (invoke_Discount HolidayDiscount (f64_of_const (Decimal 1000 0))
         \<lparr>invoice_OCP = \<lparr>Amount_OCP = f64_of_const (Decimal 1000 0)\<rparr>, stdout_OCP = []\<rparr>) =
       \<lparr>invoice_OCP = \<lparr>Amount_OCP = f64_of_const (Decimal 1000 0)\<rparr>, stdout_OCP = []\<rparr>"
  using invocation_frame [of "\<lparr>processor = \<lparr>Method = Some CreditCard\<rparr>, stdout = []\<rparr>" CreditCard
      "f64_of_const (Decimal 100 0)" HolidayDiscount
      "\<lparr>invoice_OCP = \<lparr>Amount_OCP = f64_of_const (Decimal 1000 0)\<rparr>, stdout_OCP = []\<rparr>"]
  by (simp add: fmt_f_100)

section \<open>The invoice\<close>

text \<open>
  C9. For every invoice \<open>i\<close>, \<^verbatim>\<open>i.CalculateTax()\<close> returns \<open>i.Amount * 0.15\<close> (the
  float64 product), and the call leaves the invoice unchanged.
\<close>

theorem CalculateTax_rate:
  "CalculateTax i = f64_mul (Amount i) (f64_of_const (Decimal 15 (- 2)))
   \<and> fst (invoke_CalculateTax st) = f64_mul (Amount (invoice st)) (f64_of_const (Decimal 15 (- 2)))
   \<and> snd (invoke_CalculateTax st) = st
   \<and> invoice (snd (invoke_CalculateTax st)) = invoice st"
  by (simp add: CalculateTax_def invoke_CalculateTax_def)

section \<open>The printers\<close>

text \<open>
  C7. SimplePrinter has the method Print and no method Scan: it implements Printer and not
  Scanner, and a call of Scan on it is rejected for the missing method, not ignored.
  MultifunctionPrinter has both methods and implements both interfaces.
\<close>

theorem printers_capabilities:
  "map fst (method_set SimplePrinter) = [''Print'']
   \<and> map fst (method_set MultifunctionPrinter) = [''Print'', ''Scan'']
   \<and> implements SimplePrinter Printer \<and> \<not> implements SimplePrinter Scanner
   \<and> implements MultifunctionPrinter Printer \<and> implements MultifunctionPrinter Scanner
   \<and> call_method SimplePrinter ''Scan'' out = Inl (MissingMethod ''Scan'')
   \<and> call_method SimplePrinter ''Print'' out = Inr (SimplePrinter_Print out)
   \<and> call_method MultifunctionPrinter ''Print'' out = Inr (MultifunctionPrinter_Print out)
   \<and> call_method MultifunctionPrinter ''Scan'' out = Inr (MultifunctionPrinter_Scan out)"
  by (simp add: implements_def Printer_def Scanner_def call_method_def)

text \<open>
  C10. \<^verbatim>\<open>SimplePrinter.Print\<close> and \<^verbatim>\<open>MultifunctionPrinter.Print\<close> write the same line,
  "Printing document", so a caller that needs a Printer only sees no difference between
  the two types.
\<close>

theorem Print_identical:
  "SimplePrinter_Print out = out @ ''Printing document'' @ newline
   \<and> MultifunctionPrinter_Print out = out @ ''Printing document'' @ newline
   \<and> call_method SimplePrinter ''Print'' out = call_method MultifunctionPrinter ''Print'' out"
  by (simp add: SimplePrinter_Print_def MultifunctionPrinter_Print_def Println_def call_method_def)

end
